theory Spec2Isabelle
  imports Complex_Main
begin

section \<open>FileMate: the node tree store and the packer\<close>

text \<open>
  The development follows \<^verbatim>\<open>filemate/file_system_node_tree.py\<close> (class
  \<^verbatim>\<open>FileSystemNodeTree\<close>) and \<^verbatim>\<open>filemate/packer.py\<close> (class \<^verbatim>\<open>Packer\<close>).
  A tree of \<^verbatim>\<open>TreeNode\<close> objects is a finite rose tree; a node object of a tree is
  identified with its position, the list of child indices leading to it from the root
  (the root is the empty list). Exceptions are values of the type \<open>error\<close>.
\<close>

subsection \<open>Paths\<close>

text \<open>
  A \<^verbatim>\<open>pathlib.Path\<close> after \<^verbatim>\<open>resolve()\<close> is absolute. It is modelled by the list
  of its components below the anchor, so \<^verbatim>\<open>/home/u/A\<close> is \<open>[''home'', ''u'', ''A'']\<close>.
  \<^verbatim>\<open>Path.parts\<close> of an absolute POSIX path starts with the anchor \<^verbatim>\<open>'/'\<close>,
  \<^verbatim>\<open>Path.name\<close> is the last component (empty for the anchor alone) and
  \<^verbatim>\<open>Path.parent\<close> drops the last component.
\<close>

type_synonym path = "string list"

definition parts :: "path \<Rightarrow> string list" where
  "parts p = ''/'' # p"

definition path_name :: "path \<Rightarrow> string" where
  "path_name p = (if p = [] then [] else last p)"

definition path_parent :: "path \<Rightarrow> path" where
  "path_parent p = butlast p"

subsection \<open>File system entities and tree nodes\<close>

datatype kind = File | Directory

text \<open>
  Modelled from the spec: the classes \<^verbatim>\<open>FileSystemNode\<close> and \<^verbatim>\<open>Directory\<close>
  (\<^verbatim>\<open>filemate/file_system_node.py\<close>, \<^verbatim>\<open>filemate/directory.py\<close>) are not part of
  the sources at hand. An entity exposes its path, its size (\<^verbatim>\<open>get_size()\<close>), its kind
  (\<^verbatim>\<open>get_type()\<close>, \<^verbatim>\<open>is_instance(Directory)\<close>), whether it is hidden, and the ordered
  list of its children; \<^verbatim>\<open>iter(recursive=False, hidden=False)\<close> enumerates the
  children that are not hidden. Where the code hands an entity to a search by name, the
  name searched for is the name of the entity.
\<close>

datatype fsnode =
  FSNode (fs_path: path) (fs_size: "int option") (fs_kind: kind) (fs_hidden: bool)
    (fs_children: "fsnode list")

definition fs_name :: "fsnode \<Rightarrow> string" where
  "fs_name n = path_name (fs_path n)"

text \<open>
  A \<^verbatim>\<open>TreeNode\<close> carries a name and the attributes \<^verbatim>\<open>size\<close> and \<^verbatim>\<open>type\<close>; its
  children are ordered. The parent link of a node is the position that encloses it; the
  root has none.
\<close>

datatype tnode =
  TNode (tn_name: string) (tn_size: "int option") (tn_type: kind) (tn_children: "tnode list")

type_synonym pos = "nat list"

text \<open>The exceptions that the code raises, or lets through.\<close>

datatype error =
  ParentPathNotFound
  | PathNotFound
  | TreeError
  | AttributeError
  | FileNotFoundError
  | DecodeError

fun subtree_at :: "tnode \<Rightarrow> pos \<Rightarrow> tnode option" where
  "subtree_at t [] = Some t"
| "subtree_at t (i # js) =
     (if i < length (tn_children t) then subtree_at (tn_children t ! i) js else None)"

text \<open>
  \<^verbatim>\<open>create_node(node, parent)\<close> builds \<^verbatim>\<open>TreeNode(node.path.name, parent=parent,
  size=node.get_size(), type=node.get_type())\<close>: a node without children. Giving it a
  parent appends it to the children of that parent (\<open>attach\<close>), unless the parent has
  a child of the same name already: then the node class raises \<^verbatim>\<open>TreeError\<close> and the
  tree stays as it was.
\<close>

definition create_node :: "fsnode \<Rightarrow> tnode" where
  "create_node node = TNode (path_name (fs_path node)) (fs_size node) (fs_kind node) []"

fun attach :: "pos \<Rightarrow> tnode \<Rightarrow> tnode \<Rightarrow> error + tnode" where
  "attach [] new (TNode n s k cs) =
     (if tn_name new \<in> set (map tn_name cs) then Inl TreeError
      else Inr (TNode n s k (cs @ [new])))"
| "attach (i # js) new (TNode n s k cs) =
     (if i < length cs then
        (case attach js new (cs ! i) of
           Inl e \<Rightarrow> Inl e
         | Inr c \<Rightarrow> Inr (TNode n s k (cs[i := c])))
      else Inr (TNode n s k cs))"

text \<open>
  \<^verbatim>\<open>node.parent = None\<close> takes the node out of the children of its parent. On the
  root, whose parent is \<^verbatim>\<open>None\<close> already, it changes nothing.
\<close>

fun detach :: "pos \<Rightarrow> tnode \<Rightarrow> tnode" where
  "detach [] t = t"
| "detach [i] (TNode n s k cs) = TNode n s k (take i cs @ drop (Suc i) cs)"
| "detach (i # j # js) (TNode n s k cs) =
     (if i < length cs then TNode n s k (cs[i := detach (j # js) (cs ! i)])
      else TNode n s k cs)"

subsection \<open>The store\<close>

text \<open>
  A \<^verbatim>\<open>FileSystemNodeTree\<close> after \<^verbatim>\<open>build()\<close>: the root entity and the root tree node
  (before \<^verbatim>\<open>build()\<close> the root tree node is \<^verbatim>\<open>None\<close> and no search can run).
\<close>

record store =
  root_node :: fsnode
  root_tree_node :: tnode

text \<open>
  \<^verbatim>\<open>search_node_by_name\<close>: the inner \<^verbatim>\<open>_find_by_name\<close> tests the node, then its
  children in order, and returns the first hit.
\<close>

fun find_by_name :: "tnode \<Rightarrow> string \<Rightarrow> pos option"
  and find_in_children :: "tnode list \<Rightarrow> nat \<Rightarrow> string \<Rightarrow> pos option" where
  "find_by_name (TNode n s k cs) nm = (if n = nm then Some [] else find_in_children cs 0 nm)"
| "find_in_children [] i nm = None"
| "find_in_children (c # cs) i nm =
     (case find_by_name c nm of
        Some p \<Rightarrow> Some (i # p)
      | None \<Rightarrow> find_in_children cs (Suc i) nm)"

definition search_node_by_name :: "store \<Rightarrow> string \<Rightarrow> pos option" where
  "search_node_by_name st nm = find_by_name (root_tree_node st) nm"

text \<open>
  \<^verbatim>\<open>search_node_by_path\<close>: \<^verbatim>\<open>Path(path).resolve().parts\<close>, then one step per part
  from the root tree node, each step taking the first child whose name is the part
  (\<open>first_child\<close> is the \<^verbatim>\<open>next(..., None)\<close> over the children).
\<close>

fun first_child :: "string \<Rightarrow> tnode list \<Rightarrow> nat option" where
  "first_child part [] = None"
| "first_child part (c # cs) =
     (if tn_name c = part then Some 0 else map_option Suc (first_child part cs))"

fun walk :: "tnode \<Rightarrow> string list \<Rightarrow> pos option" where
  "walk current_node [] = Some []"
| "walk current_node (part # rest) =
     (case first_child part (tn_children current_node) of
        None \<Rightarrow> None
      | Some i \<Rightarrow> map_option ((#) i) (walk (tn_children current_node ! i) rest))"

definition search_node_by_path :: "store \<Rightarrow> path \<Rightarrow> pos option" where
  "search_node_by_path st p = walk (root_tree_node st) (parts p)"

definition add_node :: "store \<Rightarrow> path \<Rightarrow> fsnode \<Rightarrow> error + store" where
  "add_node st parent_path child_node =
     (case search_node_by_path st parent_path of
        None \<Rightarrow> Inl ParentPathNotFound
      | Some parent_tree_node \<Rightarrow>
          (case attach parent_tree_node (create_node child_node) (root_tree_node st) of
             Inl e \<Rightarrow> Inl e
           | Inr t \<Rightarrow> Inr (st\<lparr>root_tree_node := t\<rparr>)))"

definition remove_node :: "store \<Rightarrow> path \<Rightarrow> error + store" where
  "remove_node st p =
     (case search_node_by_path st p of
        None \<Rightarrow> Inl PathNotFound
      | Some node_to_remove \<Rightarrow>
          Inr (st\<lparr>root_tree_node := detach node_to_remove (root_tree_node st)\<rparr>))"

subsection \<open>Saved trees\<close>

text \<open>
  The files under the folder of saved trees and the clock. A file has a modification
  time and a content; times are seconds, modelled as real numbers.
\<close>

record saved_file =
  st_mtime :: real
  content :: string

record env =
  files :: "string \<Rightarrow> saved_file option"
  time_now :: real

definition nodetree_folder_name :: string where
  "nodetree_folder_name = ''__nodetree__''"

definition nodetree_path :: "string \<Rightarrow> string" where
  "nodetree_path node_name = nodetree_folder_name @ ''/'' @ node_name @ ''.json''"

definition check_saved_tree :: "env \<Rightarrow> string \<Rightarrow> int option \<Rightarrow> bool" where
  "check_saved_tree e node_name max_age =
     (case max_age of
        Some m \<Rightarrow>
          (case files e (nodetree_path node_name) of
             Some f \<Rightarrow> time_now e - st_mtime f < real_of_int m
           | None \<Rightarrow> False)
      | None \<Rightarrow> files e (nodetree_path node_name) \<noteq> None)"

text \<open>
  \<^verbatim>\<open>importer\<close> opens the file, which raises \<^verbatim>\<open>FileNotFoundError\<close> when it is
  absent, and hands the content to \<^verbatim>\<open>json.load\<close> and the library's
  \<^verbatim>\<open>dict_to_tree\<close>. These two are the parameter \<open>decode\<close>; neither touches the file
  system, and a content they reject is \<open>DecodeError\<close>. Both \<^verbatim>\<open>importer\<close> and
  \<^verbatim>\<open>restore\<close> only read: they return the environment as they found it.
\<close>

definition importer ::
  "(string \<Rightarrow> tnode option) \<Rightarrow> env \<Rightarrow> string \<Rightarrow> (error + tnode) \<times> env" where
  "importer decode e file_path =
     (case files e file_path of
        None \<Rightarrow> (Inl FileNotFoundError, e)
      | Some f \<Rightarrow>
          (case decode (content f) of
             None \<Rightarrow> (Inl DecodeError, e)
           | Some t \<Rightarrow> (Inr t, e)))"

definition restore ::
  "(string \<Rightarrow> tnode option) \<Rightarrow> env \<Rightarrow> string \<Rightarrow> (error + tnode) \<times> env" where
  "restore decode e node_name =
     (if \<not> check_saved_tree e node_name None then (Inl FileNotFoundError, e)
      else importer decode e (nodetree_path node_name))"


subsection \<open>The packer\<close>

text \<open>
  Modelled from the spec: the packer reads \<^verbatim>\<open>is_instance(Directory)\<close>, \<^verbatim>\<open>path\<close>
  and \<^verbatim>\<open>parent\<close> of its destination node, the interface of the missing class
  \<^verbatim>\<open>FileSystemNode\<close>. An entity of the destination file system is given by its path
  and its kind (\<open>dnode\<close>); its parent is the directory at \<^verbatim>\<open>Path.parent\<close> of its path.
  The entity that a tree node of a store mirrors has the path of the root entity followed
  by the names on the way down to the tree node (\<open>tree_node_path\<close>) and the \<^verbatim>\<open>type\<close>
  of the tree node as its kind (\<open>node_at\<close>).
\<close>

record dnode =
  d_path :: path
  d_kind :: kind

fun names_along :: "tnode \<Rightarrow> pos \<Rightarrow> string list" where
  "names_along t [] = []"
| "names_along t (i # js) =
     (if i < length (tn_children t)
      then tn_name (tn_children t ! i) # names_along (tn_children t ! i) js
      else [])"

definition tree_node_path :: "store \<Rightarrow> pos \<Rightarrow> path" where
  "tree_node_path st q = fs_path (root_node st) @ names_along (root_tree_node st) q"

definition node_at :: "store \<Rightarrow> pos \<Rightarrow> dnode option" where
  "node_at st q =
     (case subtree_at (root_tree_node st) q of
        None \<Rightarrow> None
      | Some t \<Rightarrow> Some \<lparr>d_path = tree_node_path st q, d_kind = tn_type t\<rparr>)"

text \<open>
  The destination node of a packer method is one of two kinds of object: an entity,
  handed in by the caller, or the \<^verbatim>\<open>TreeNode\<close> that \<^verbatim>\<open>search_node_by_name\<close>
  returned, given by its position in the destination tree. A \<^verbatim>\<open>TreeNode\<close> has a
  \<^verbatim>\<open>parent\<close> but neither \<^verbatim>\<open>is_instance\<close> nor \<^verbatim>\<open>path\<close>: reading them raises
  \<^verbatim>\<open>AttributeError\<close>, as reading \<^verbatim>\<open>path\<close> of \<^verbatim>\<open>None\<close> does.
\<close>

datatype dst_node = Entity dnode | TreeNodeAt pos

fun is_instance_Directory :: "dst_node \<Rightarrow> error + bool" where
  "is_instance_Directory (Entity d) = Inr (d_kind d = Directory)"
| "is_instance_Directory (TreeNodeAt q) = Inl AttributeError"

fun node_parent :: "dst_node \<Rightarrow> dst_node option" where
  "node_parent (Entity d) = Some (Entity \<lparr>d_path = path_parent (d_path d), d_kind = Directory\<rparr>)"
| "node_parent (TreeNodeAt q) = (if q = [] then None else Some (TreeNodeAt (butlast q)))"

fun node_path :: "dst_node option \<Rightarrow> error + path" where
  "node_path (Some (Entity d)) = Inr (d_path d)"
| "node_path (Some (TreeNodeAt q)) = Inl AttributeError"
| "node_path None = Inl AttributeError"

text \<open>
  A \<^verbatim>\<open>Packer\<close> holds the two stores and the two policy flags. Every method returns
  the packer after the call together with the exception raised, if any: the changes
  made before an exception stay.
\<close>

record packer =
  source :: store
  destination :: store
  override :: bool
  merge :: bool

type_synonym outcome = "packer \<times> error option"

text \<open>
  \<^verbatim>\<open>self.destination.search_node_by_name(node)\<close>, as the packer calls it: the search
  is for the name of the entity and returns a \<^verbatim>\<open>TreeNode\<close> of the destination tree.
\<close>

definition lookup_destination :: "packer \<Rightarrow> fsnode \<Rightarrow> dst_node option" where
  "lookup_destination pk node =
     map_option TreeNodeAt (search_node_by_name (destination pk) (fs_name node))"

text \<open>
  \<^verbatim>\<open>Packer.add_node(node, parent)\<close> calls \<^verbatim>\<open>self.destination.add_node(parent.path,
  node)\<close> and \<^verbatim>\<open>Packer.remove_node(node)\<close> calls
  \<^verbatim>\<open>self.destination.remove_node(node.path)\<close>.
\<close>

definition packer_add_node :: "fsnode \<Rightarrow> dst_node option \<Rightarrow> packer \<Rightarrow> outcome" where
  "packer_add_node node parent pk =
     (case node_path parent of
        Inl e \<Rightarrow> (pk, Some e)
      | Inr parent_path \<Rightarrow>
          (case add_node (destination pk) parent_path node of
             Inl e \<Rightarrow> (pk, Some e)
           | Inr d \<Rightarrow> (pk\<lparr>destination := d\<rparr>, None)))"

definition packer_remove_node :: "dst_node \<Rightarrow> packer \<Rightarrow> outcome" where
  "packer_remove_node node pk =
     (case node_path (Some node) of
        Inl e \<Rightarrow> (pk, Some e)
      | Inr p \<Rightarrow>
          (case remove_node (destination pk) p of
             Inl e \<Rightarrow> (pk, Some e)
           | Inr d \<Rightarrow> (pk\<lparr>destination := d\<rparr>, None)))"

definition replace_directory :: "fsnode \<Rightarrow> dst_node \<Rightarrow> packer \<Rightarrow> outcome" where
  "replace_directory node_from_source node_from_destination pk =
     (case packer_remove_node node_from_destination pk of
        (pk', Some e) \<Rightarrow> (pk', Some e)
      | (pk', None) \<Rightarrow>
          packer_add_node node_from_source (node_parent node_from_destination) pk')"

definition replace_node :: "fsnode \<Rightarrow> dst_node \<Rightarrow> packer \<Rightarrow> outcome" where
  "replace_node node_from_source node_from_destination pk =
     (if fs_kind node_from_source = Directory then
        (case is_instance_Directory node_from_destination of
           Inl e \<Rightarrow> (pk, Some e)
         | Inr dir \<Rightarrow>
             (if dir then replace_directory node_from_source node_from_destination pk
              else packer_add_node node_from_source (node_parent node_from_destination) pk))
      else packer_add_node node_from_source (node_parent node_from_destination) pk)"

text \<open>
  The loops of \<^verbatim>\<open>merge_directory\<close> and \<^verbatim>\<open>override_directory\<close> run over
  \<^verbatim>\<open>node_from_source.iter(recursive=False, hidden=False)\<close>: \<open>merge_children\<close> and
  \<open>override_children\<close> go through the children in order and pass over the hidden ones.
\<close>

fun merge_node :: "fsnode \<Rightarrow> dst_node \<Rightarrow> packer \<Rightarrow> outcome"
  and merge_directory :: "fsnode \<Rightarrow> dst_node \<Rightarrow> packer \<Rightarrow> outcome"
  and merge_children :: "fsnode list \<Rightarrow> dst_node \<Rightarrow> packer \<Rightarrow> outcome" where
  "merge_node node_from_source node_from_destination pk =
     (if fs_kind node_from_source = Directory then
        (case is_instance_Directory node_from_destination of
           Inl e \<Rightarrow> (pk, Some e)
         | Inr dir \<Rightarrow>
             (if dir then merge_directory node_from_source node_from_destination pk
              else replace_node node_from_source node_from_destination pk))
      else replace_node node_from_source node_from_destination pk)"
| "merge_directory (FSNode p s k h cs) node_from_destination pk =
     merge_children cs node_from_destination pk"
| "merge_children [] node_from_destination pk = (pk, None)"
| "merge_children (child # rest) node_from_destination pk =
     (if fs_hidden child then merge_children rest node_from_destination pk
      else
        (case (case lookup_destination pk child of
                 Some child_node_from_destination \<Rightarrow>
                   merge_node child child_node_from_destination pk
               | None \<Rightarrow> packer_add_node child (Some node_from_destination) pk) of
           (pk', Some e) \<Rightarrow> (pk', Some e)
         | (pk', None) \<Rightarrow> merge_children rest node_from_destination pk'))"

fun pack :: "fsnode \<Rightarrow> dst_node option \<Rightarrow> packer \<Rightarrow> outcome"
  and override_node :: "fsnode \<Rightarrow> dst_node \<Rightarrow> packer \<Rightarrow> outcome"
  and override_directory :: "fsnode \<Rightarrow> dst_node \<Rightarrow> packer \<Rightarrow> outcome"
  and override_children :: "fsnode list \<Rightarrow> dst_node \<Rightarrow> packer \<Rightarrow> outcome" where
  "pack node_from_source dst pk =
     (case (case dst of None \<Rightarrow> lookup_destination pk node_from_source | Some d \<Rightarrow> Some d) of
        None \<Rightarrow> (pk, None)
      | Some node_from_destination \<Rightarrow>
          (if override pk then override_node node_from_source node_from_destination pk
           else if merge pk then merge_node node_from_source node_from_destination pk
           else replace_node node_from_source node_from_destination pk))"
| "override_node node_from_source node_from_destination pk =
     (if fs_kind node_from_source = Directory then
        (case is_instance_Directory node_from_destination of
           Inl e \<Rightarrow> (pk, Some e)
         | Inr dir \<Rightarrow>
             (if dir then override_directory node_from_source node_from_destination pk
              else replace_node node_from_source node_from_destination pk))
      else replace_node node_from_source node_from_destination pk)"
| "override_directory (FSNode p s k h cs) node_from_destination pk =
     override_children cs node_from_destination pk"
| "override_children [] node_from_destination pk = (pk, None)"
| "override_children (child # rest) node_from_destination pk =
     (if fs_hidden child then override_children rest node_from_destination pk
      else
        (case (case lookup_destination pk child of
                 Some child_node_from_destination \<Rightarrow>
                   pack child (Some child_node_from_destination) pk
               | None \<Rightarrow> packer_add_node child (Some node_from_destination) pk) of
           (pk', Some e) \<Rightarrow> (pk', Some e)
         | (pk', None) \<Rightarrow> override_children rest node_from_destination pk'))"

text \<open>\<^verbatim>\<open>pack_all\<close>: the loop over \<^verbatim>\<open>self.source.root_node.children\<close>.\<close>

fun pack_each :: "fsnode list \<Rightarrow> packer \<Rightarrow> outcome" where
  "pack_each [] pk = (pk, None)"
| "pack_each (node_from_source # rest) pk =
     (case pack node_from_source (lookup_destination pk node_from_source) pk of
        (pk', Some e) \<Rightarrow> (pk', Some e)
      | (pk', None) \<Rightarrow> pack_each rest pk')"

definition pack_all :: "packer \<Rightarrow> outcome" where
  "pack_all pk = pack_each (fs_children (root_node (source pk))) pk"

subsection \<open>Sequences of store operations\<close>

text \<open>
  A caller may apply \<^verbatim>\<open>add_node\<close> and \<^verbatim>\<open>remove_node\<close> in any order; a call that
  raises leaves the store as it was.
\<close>

datatype store_op = AddNode path fsnode | RemoveNode path

fun apply_op :: "store \<Rightarrow> store_op \<Rightarrow> store" where
  "apply_op st (AddNode parent_path child_node) =
     (case add_node st parent_path child_node of Inl e \<Rightarrow> st | Inr st' \<Rightarrow> st')"
| "apply_op st (RemoveNode p) =
     (case remove_node st p of Inl e \<Rightarrow> st | Inr st' \<Rightarrow> st')"

fun run_ops :: "store \<Rightarrow> store_op list \<Rightarrow> store" where
  "run_ops st [] = st"
| "run_ops st (x # xs) = run_ops (apply_op st x) xs"

definition root_label :: "store \<Rightarrow> string \<times> int option \<times> kind" where
  "root_label st =
     (tn_name (root_tree_node st), tn_size (root_tree_node st), tn_type (root_tree_node st))"

subsection \<open>Relations between outcomes\<close>

text \<open>A call changed nothing of the packer but, possibly, the destination store.\<close>

definition frame :: "packer \<Rightarrow> outcome \<Rightarrow> bool" where
  "frame pk r \<longleftrightarrow> fst r = pk\<lparr>destination := destination (fst r)\<rparr>"

text \<open>Two calls ended with the same destination store and the same exception, or none.\<close>

definition same_outcome :: "outcome \<Rightarrow> outcome \<Rightarrow> bool" where
  "same_outcome r1 r2 \<longleftrightarrow> destination (fst r1) = destination (fst r2) \<and> snd r1 = snd r2"

subsection \<open>Example stores\<close>

text \<open>A saved tree for the name \<^verbatim>\<open>A\<close>, written at time 100; the clock reads 105.\<close>

definition env_A :: env where
  "env_A = \<lparr>files = (\<lambda>p. if p = nodetree_path ''A''
                           then Some \<lparr>st_mtime = 100, content = ''{}''\<rparr> else None),
            time_now = 105\<rparr>"

text \<open>The directory \<^verbatim>\<open>/A\<close> with the file \<^verbatim>\<open>x.txt\<close>, and its store.\<close>

definition dir_A :: fsnode where
  "dir_A = FSNode [''A''] None Directory False
             [FSNode [''A'', ''x.txt''] (Some 10) File False []]"

definition store_A :: store where
  "store_A = \<lparr>root_node = dir_A,
              root_tree_node = TNode ''A'' None Directory [TNode ''x.txt'' (Some 10) File []]\<rparr>"

text \<open>
  A source \<^verbatim>\<open>/S\<close> with the directory \<^verbatim>\<open>d\<close> holding \<^verbatim>\<open>y.txt\<close>, and a destination
  \<^verbatim>\<open>/D\<close> with a directory \<^verbatim>\<open>d\<close> holding \<^verbatim>\<open>old.txt\<close>.
\<close>

definition dir_S :: fsnode where
  "dir_S = FSNode [''S''] None Directory False
             [FSNode [''S'', ''d''] None Directory False
                [FSNode [''S'', ''d'', ''y.txt''] (Some 5) File False []]]"

definition store_S :: store where
  "store_S = \<lparr>root_node = dir_S,
     root_tree_node = TNode ''S'' None Directory
        [TNode ''d'' None Directory [TNode ''y.txt'' (Some 5) File []]]\<rparr>"

definition dir_D :: fsnode where
  "dir_D = FSNode [''D''] None Directory False
             [FSNode [''D'', ''d''] None Directory False
                [FSNode [''D'', ''d'', ''old.txt''] (Some 1) File False []]]"

definition store_D :: store where
  "store_D = \<lparr>root_node = dir_D,
     root_tree_node = TNode ''D'' None Directory
        [TNode ''d'' None Directory [TNode ''old.txt'' (Some 1) File []]]\<rparr>"

definition packer_SD :: "bool \<Rightarrow> bool \<Rightarrow> packer" where
  "packer_SD ov mg = \<lparr>source = store_S, destination = store_D, override = ov, merge = mg\<rparr>"

text \<open>
  A destination \<^verbatim>\<open>/E\<close> with the directory \<^verbatim>\<open>other\<close> holding \<^verbatim>\<open>c.txt\<close> and the empty
  directory \<^verbatim>\<open>dst\<close>; a source directory \<^verbatim>\<open>dst\<close> holding \<^verbatim>\<open>c.txt\<close>.
\<close>

definition store_E :: store where
  "store_E = \<lparr>root_node = FSNode [''E''] None Directory False
        [FSNode [''E'', ''other''] None Directory False
           [FSNode [''E'', ''other'', ''c.txt''] (Some 3) File False []],
         FSNode [''E'', ''dst''] None Directory False []],
     root_tree_node = TNode ''E'' None Directory
        [TNode ''other'' None Directory [TNode ''c.txt'' (Some 3) File []],
         TNode ''dst'' None Directory []]\<rparr>"

definition dir_src :: fsnode where
  "dir_src = FSNode [''S'', ''dst''] None Directory False
               [FSNode [''S'', ''dst'', ''c.txt''] (Some 7) File False []]"

definition packer_E :: packer where
  "packer_E = \<lparr>source = store_S, destination = store_E, override = True, merge = False\<rparr>"

section \<open>Saved trees: the age gate and restore\<close>

text \<open>
  What \<open>check_saved_tree\<close> computes: without \<open>max_age\<close>, whether the saved file of
  the name exists, whatever its age; with \<open>max_age\<close>, whether it exists and its age, the
  clock minus the modification time, is strictly below \<open>max_age\<close>.
\<close>

lemma check_saved_tree_unfold:
  "(check_saved_tree e node_name None \<longleftrightarrow> files e (nodetree_path node_name) \<noteq> None)
   \<and> (check_saved_tree e node_name (Some m) \<longleftrightarrow>
        (\<exists>f. files e (nodetree_path node_name) = Some f
             \<and> time_now e - st_mtime f < real_of_int m))"
  by (auto simp: check_saved_tree_def split: option.splits)

lemma check_saved_tree_zero:
  "files e (nodetree_path node_name) = Some f \<Longrightarrow> 0 < time_now e - st_mtime f \<Longrightarrow>
   \<not> check_saved_tree e node_name (Some 0)"
  by (simp add: check_saved_tree_def)

text \<open>
  Claim C7 asks that with \<open>max_age\<close> given the check is true exactly when the file
  exists and its age is within \<open>max_age\<close>; the comment in the code says ``not older than
  max_age''. For the saved tree of the name \<^verbatim>\<open>A\<close>, written at time 100 and checked at
  time 105, the age is 5, which is within a \<open>max_age\<close> of 5; the check with
  \<open>max_age = 5\<close> is false, because the code compares with \<open><\<close>.
\<close>

theorem check_saved_tree_rejects_max_age:
  "files env_A (nodetree_path ''A'') = Some \<lparr>st_mtime = 100, content = ''{}''\<rparr>
   \<and> time_now env_A - 100 = 5
   \<and> check_saved_tree env_A ''A'' None
   \<and> \<not> check_saved_tree env_A ''A'' (Some 5)"
  by (simp add: env_A_def check_saved_tree_def)

text \<open>
  Claim C8. \<open>restore\<close> fails with \<open>FileNotFoundError\<close> if and only if no saved file
  exists for the name, and it leaves the environment as it was, also when it fails.
\<close>

theorem restore_not_found_iff:
  "(fst (restore decode e node_name) = Inl FileNotFoundError
      \<longleftrightarrow> files e (nodetree_path node_name) = None)
   \<and> snd (restore decode e node_name) = e"
  by (auto simp: restore_def importer_def check_saved_tree_def split: option.splits)


section \<open>Searching by path\<close>

lemma walk_length: "walk t ps = Some q \<Longrightarrow> length q = length ps"
  by (induction ps arbitrary: t q) (auto split: option.splits)

lemma walk_nonempty: "walk t (x # xs) \<noteq> Some []"
  by (auto split: option.splits)

lemma search_node_by_path_not_root: "search_node_by_path st p \<noteq> Some []"
  by (simp add: search_node_by_path_def parts_def walk_nonempty del: walk.simps)

lemma names_along_length: "subtree_at t q = Some u \<Longrightarrow> length (names_along t q) = length q"
  by (induction q arbitrary: t) (auto split: if_splits)

lemma first_child_bound:
  "first_child part cs = Some i \<Longrightarrow> i < length cs \<and> tn_name (cs ! i) = part"
  by (induction cs arbitrary: i) (auto split: if_splits)

text \<open>
  The search gives up at the first part that names no child of the node reached so far,
  whatever parts follow.
\<close>

lemma walk_stops_at_first_miss:
  "walk t pre = Some q \<Longrightarrow> subtree_at t q = Some u \<Longrightarrow>
   first_child part (tn_children u) = None \<Longrightarrow> walk t (pre @ part # rest) = None"
proof (induction pre arbitrary: t q)
  case Nil
  then show ?case by simp
next
  case (Cons a pre)
  then show ?case
    by (auto split: option.splits dest: first_child_bound)
qed

text \<open>
  The search takes one step down per part, and the parts of the path of a node are more
  than the node is deep: the anchor and the components of the root come first. So the
  search on the path of a node never ends at that node.
\<close>

lemma search_own_path_misses:
  assumes "subtree_at (root_tree_node st) q = Some u"
  shows "search_node_by_path st (tree_node_path st q) \<noteq> Some q"
proof
  assume "search_node_by_path st (tree_node_path st q) = Some q"
  then have "length q = length (parts (tree_node_path st q))"
    unfolding search_node_by_path_def by (rule walk_length)
  then show False
    using names_along_length [OF assms] by (simp add: parts_def tree_node_path_def)
qed

text \<open>
  Claim C2 asks that the search on the path of a node of the store returns that node.
  In the store of \<^verbatim>\<open>/A\<close> the node \<^verbatim>\<open>x.txt\<close> is the first child of the root and its
  path is \<^verbatim>\<open>/A/x.txt\<close>; the search on this path returns \<^verbatim>\<open>None\<close>, because the root
  has no child named \<^verbatim>\<open>/\<close>.
\<close>

theorem search_node_by_path_misses_node:
  "subtree_at (root_tree_node store_A) [0] = Some (TNode ''x.txt'' (Some 10) File [])
   \<and> tree_node_path store_A [0] = [''A'', ''x.txt'']
   \<and> search_node_by_path store_A [''A'', ''x.txt''] = None"
  by (simp add: tree_node_path_def store_A_def dir_A_def search_node_by_path_def parts_def)

text \<open>
  Claim C6 asks that \<^verbatim>\<open>remove_node\<close> on the path of an attached node followed by
  \<^verbatim>\<open>add_node\<close> under its parent restores the children of the parent. In the store of
  \<^verbatim>\<open>/A\<close>, \<^verbatim>\<open>remove_node\<close> on the path of \<^verbatim>\<open>x.txt\<close> raises the error of a path that
  is not in the tree, and so does \<^verbatim>\<open>add_node\<close> on the path of the root; nothing is
  detached and nothing is attached.
\<close>

theorem remove_node_misses_node:
  "remove_node store_A (tree_node_path store_A [0]) = Inl PathNotFound
   \<and> add_node store_A (tree_node_path store_A []) (hd (fs_children dir_A))
       = Inl ParentPathNotFound"
  by (simp add: remove_node_def add_node_def tree_node_path_def store_A_def dir_A_def
      search_node_by_path_def parts_def)

section \<open>The root under add and remove\<close>

lemma attach_label:
  "attach q new t = Inr t' \<Longrightarrow>
   tn_name t' = tn_name t \<and> tn_size t' = tn_size t \<and> tn_type t' = tn_type t"
  by (cases q; cases t) (auto split: if_splits sum.splits)

lemma detach_label:
  "tn_name (detach q t) = tn_name t \<and> tn_size (detach q t) = tn_size t
   \<and> tn_type (detach q t) = tn_type t"
  by (cases "(q, t)" rule: detach.cases) auto

lemma apply_op_root_label: "root_label (apply_op st x) = root_label st"
  by (cases x)
     (auto simp: root_label_def add_node_def remove_node_def detach_label
           split: option.splits sum.splits dest: attach_label)

lemma run_ops_root_label: "root_label (run_ops st xs) = root_label st"
  by (induction xs arbitrary: st) (simp_all add: apply_op_root_label)

text \<open>
  Claim C10. For every path, \<^verbatim>\<open>search_node_by_path\<close> never returns the root, the
  empty position: the parts of a resolved path are never empty, so the search goes down
  at least one level. Hence the node that \<^verbatim>\<open>remove_node\<close> detaches is never the root.
  The same holds after every sequence of \<^verbatim>\<open>add_node\<close> and \<^verbatim>\<open>remove_node\<close> calls, and
  such a sequence leaves the root node in place, with its name, size and kind. The root
  is the one node with no enclosing position: its parent link is null in every store.
\<close>

theorem root_unreachable_by_path:
  "search_node_by_path st p \<noteq> Some []
   \<and> search_node_by_path (run_ops st ops) p \<noteq> Some []
   \<and> root_label (run_ops st ops) = root_label st"
  by (simp add: search_node_by_path_not_root run_ops_root_label)

section \<open>The packer changes the destination store only\<close>

lemma frame_refl: "frame pk (pk, x)"
  by (simp add: frame_def)

lemma frame_trans: "frame pk (pk', x) \<Longrightarrow> frame pk' r \<Longrightarrow> frame pk r"
  unfolding frame_def by (metis fst_conv packer.surjective packer.update_convs(2))

lemma frame_flags:
  "frame pk r \<Longrightarrow>
   source (fst r) = source pk \<and> override (fst r) = override pk \<and> merge (fst r) = merge pk"
  unfolding frame_def
  by (metis packer.select_convs(1,3,4) packer.surjective packer.update_convs(2))

lemma packer_add_node_frame: "frame pk (packer_add_node node parent pk)"
  by (simp add: packer_add_node_def frame_def split: sum.splits)

lemma packer_remove_node_frame: "frame pk (packer_remove_node node pk)"
  by (simp add: packer_remove_node_def frame_def split: sum.splits)

text \<open>One round of a loop: a first call, then the rest unless the first call raised.\<close>

lemma children_step_frame:
  assumes first: "frame pk step"
    and rest: "\<And>pk'. step = (pk', None) \<Longrightarrow> frame pk' (k pk')"
  shows "frame pk (case step of (pk', Some e) \<Rightarrow> (pk', Some e) | (pk', None) \<Rightarrow> k pk')"
proof (cases step)
  case (Pair pk' x)
  show ?thesis
  proof (cases x)
    case None
    then show ?thesis
      using Pair first rest [of pk'] frame_trans [of pk pk' None "k pk'"] by simp
  next
    case (Some e)
    then show ?thesis using Pair first by simp
  qed
qed

lemma replace_directory_frame: "frame pk (replace_directory s d pk)"
  unfolding replace_directory_def
  by (rule children_step_frame) (simp_all add: packer_remove_node_frame packer_add_node_frame)

lemma replace_node_frame: "frame pk (replace_node s d pk)"
  by (simp add: replace_node_def replace_directory_frame packer_add_node_frame frame_refl
      split: sum.splits)

declare pack.simps [simp del] override_node.simps [simp del] merge_node.simps [simp del]

lemma merge_frame:
  "frame pk (merge_node s d pk)"
  "frame pk (merge_directory s d pk)"
  "frame pk (merge_children cs d pk)"
proof (induction s d pk and s d pk and cs d pk
    rule: merge_node_merge_directory_merge_children.induct)
  case (1 s d pk)
  then show ?case
    by (simp add: merge_node.simps replace_node_frame frame_refl split: sum.splits)
next
  case (2 p s k h cs d pk)
  then show ?case by simp
next
  case (3 d pk)
  then show ?case by (simp add: frame_refl)
next
  case (4 child rest d pk)
  show ?case
  proof (cases "fs_hidden child")
    case True
    then show ?thesis using 4 by simp
  next
    case False
    define step where "step = (case lookup_destination pk child of
                 None \<Rightarrow> packer_add_node child (Some d) pk
               | Some cd \<Rightarrow> merge_node child cd pk)"
    have fs: "frame pk step"
      using 4(2) [OF False] packer_add_node_frame
      by (simp add: step_def split: option.splits)
    have fr: "\<And>pk'. step = (pk', None) \<Longrightarrow> frame pk' (merge_children rest d pk')"
      using 4(3) [OF False] unfolding step_def by simp
    have "merge_children (child # rest) d pk =
        (case step of (pk', Some e) \<Rightarrow> (pk', Some e)
                    | (pk', None) \<Rightarrow> merge_children rest d pk')"
      using False unfolding step_def by (simp split: option.splits)
    then show ?thesis using children_step_frame [OF fs fr] by simp
  qed
qed

lemma override_frame:
  "frame pk (pack s dst pk)"
  "frame pk (override_node s d pk)"
  "frame pk (override_directory s d pk)"
  "frame pk (override_children cs d pk)"
proof (induction s dst pk and s d pk and s d pk and cs d pk
    rule: pack_override_node_override_directory_override_children.induct)
  case (1 s dst pk)
  then show ?case
    by (simp add: pack.simps frame_refl merge_frame replace_node_frame split: option.splits)
next
  case (2 s d pk)
  then show ?case
    by (simp add: override_node.simps replace_node_frame frame_refl split: sum.splits)
next
  case (3 p s k h cs d pk)
  then show ?case by simp
next
  case (4 d pk)
  then show ?case by (simp add: frame_refl)
next
  case (5 child rest d pk)
  show ?case
  proof (cases "fs_hidden child")
    case True
    then show ?thesis using 5 by simp
  next
    case False
    define step where "step = (case lookup_destination pk child of
                 None \<Rightarrow> packer_add_node child (Some d) pk
               | Some cd \<Rightarrow> pack child (Some cd) pk)"
    have fs: "frame pk step"
      using 5(2) [OF False] packer_add_node_frame
      by (simp add: step_def split: option.splits)
    have fr: "\<And>pk'. step = (pk', None) \<Longrightarrow> frame pk' (override_children rest d pk')"
      using 5(3) [OF False] unfolding step_def by simp
    have "override_children (child # rest) d pk =
        (case step of (pk', Some e) \<Rightarrow> (pk', Some e)
                    | (pk', None) \<Rightarrow> override_children rest d pk')"
      using False unfolding step_def by (simp split: option.splits)
    then show ?thesis using children_step_frame [OF fs fr] by simp
  qed
qed

lemma pack_each_frame: "frame pk (pack_each ns pk)"
proof (induction ns arbitrary: pk)
  case Nil
  then show ?case by (simp add: frame_refl)
next
  case (Cons n ns)
  have "frame pk (case pack n (lookup_destination pk n) pk of
           (pk', Some e) \<Rightarrow> (pk', Some e) | (pk', None) \<Rightarrow> pack_each ns pk')"
    by (rule children_step_frame) (simp_all add: override_frame Cons.IH)
  then show ?case by simp
qed

text \<open>
  Claim C9. No call of the packer changes the source store: after \<^verbatim>\<open>pack\<close>,
  \<^verbatim>\<open>pack_all\<close>, the override, merge and replace actions, and the packer's own
  \<^verbatim>\<open>add_node\<close> and \<^verbatim>\<open>remove_node\<close>, the source store is the one before the call,
  also when the call raised. Every change goes to the destination store.
\<close>

theorem source_store_unchanged:
  "source (fst (pack s dst pk)) = source pk
   \<and> source (fst (pack_all pk)) = source pk
   \<and> source (fst (override_node s d pk)) = source pk
   \<and> source (fst (merge_node s d pk)) = source pk
   \<and> source (fst (replace_node s d pk)) = source pk
   \<and> source (fst (packer_add_node s pp pk)) = source pk
   \<and> source (fst (packer_remove_node d pk)) = source pk"
  using frame_flags [OF override_frame(1) [of pk s dst]]
    frame_flags [OF pack_each_frame [of pk "fs_children (root_node (source pk))"]]
    frame_flags [OF override_frame(2) [of pk s d]]
    frame_flags [OF merge_frame(1) [of pk s d]]
    frame_flags [OF replace_node_frame [of pk s d]]
    frame_flags [OF packer_add_node_frame [of pk s pp]]
    frame_flags [OF packer_remove_node_frame [of pk d]]
  by (simp add: pack_all_def)

section \<open>Override and merge\<close>

lemma lookup_destination_cong:
  "destination pk1 = destination pk2 \<Longrightarrow> lookup_destination pk1 c = lookup_destination pk2 c"
  by (simp add: lookup_destination_def split: option.splits)

lemma packer_add_node_cong:
  "destination pk1 = destination pk2 \<Longrightarrow>
   same_outcome (packer_add_node n pp pk1) (packer_add_node n pp pk2)"
  by (simp add: packer_add_node_def same_outcome_def split: sum.splits)

lemma packer_remove_node_cong:
  "destination pk1 = destination pk2 \<Longrightarrow>
   same_outcome (packer_remove_node d pk1) (packer_remove_node d pk2)"
  by (simp add: packer_remove_node_def same_outcome_def split: sum.splits)

lemma same_outcome_pair:
  "destination pk1 = destination pk2 \<Longrightarrow> same_outcome (pk1, x) (pk2, x)"
  by (simp add: same_outcome_def)

lemma children_step_cong:
  assumes first: "same_outcome step1 step2"
    and rest: "\<And>a b. step1 = (a, None) \<Longrightarrow> step2 = (b, None) \<Longrightarrow> same_outcome (k1 a) (k2 b)"
  shows "same_outcome
           (case step1 of (pk', Some e) \<Rightarrow> (pk', Some e) | (pk', None) \<Rightarrow> k1 pk')
           (case step2 of (pk', Some e) \<Rightarrow> (pk', Some e) | (pk', None) \<Rightarrow> k2 pk')"
proof -
  obtain a x where s1: "step1 = (a, x)" by (cases step1)
  obtain b y where s2: "step2 = (b, y)" by (cases step2)
  have xy: "x = y" and ab: "destination a = destination b"
    using first s1 s2 by (simp_all add: same_outcome_def)
  show ?thesis
  proof (cases x)
    case None
    then show ?thesis using s1 s2 xy rest [of a b] by simp
  next
    case (Some e)
    then show ?thesis using s1 s2 xy ab by (simp add: same_outcome_def)
  qed
qed

lemma replace_directory_cong:
  assumes "destination pk1 = destination pk2"
  shows "same_outcome (replace_directory s d pk1) (replace_directory s d pk2)"
  unfolding replace_directory_def
proof (rule children_step_cong)
  show "same_outcome (packer_remove_node d pk1) (packer_remove_node d pk2)"
    by (rule packer_remove_node_cong [OF assms])
next
  fix a b
  assume "packer_remove_node d pk1 = (a, None)" and "packer_remove_node d pk2 = (b, None)"
  then have "destination a = destination b"
    using packer_remove_node_cong [OF assms, of d] by (simp add: same_outcome_def)
  then show "same_outcome (packer_add_node s (node_parent d) a)
               (packer_add_node s (node_parent d) b)"
    by (rule packer_add_node_cong)
qed

lemma replace_node_cong:
  "destination pk1 = destination pk2 \<Longrightarrow>
   same_outcome (replace_node s d pk1) (replace_node s d pk2)"
  by (cases "is_instance_Directory d")
     (simp_all add: replace_node_def replace_directory_cong packer_add_node_cong
        same_outcome_pair)

text \<open>
  With the override flag set, \<^verbatim>\<open>pack\<close> on a given destination node and the override
  action do to the destination store what the merge action does.
\<close>

lemma override_as_merge:
  "override pk \<Longrightarrow> destination pk2 = destination pk \<Longrightarrow> dst = Some d0 \<Longrightarrow>
     same_outcome (pack s dst pk) (merge_node s d0 pk2)"
  "override pk \<Longrightarrow> destination pk2 = destination pk \<Longrightarrow>
     same_outcome (override_node s d pk) (merge_node s d pk2)"
  "override pk \<Longrightarrow> destination pk2 = destination pk \<Longrightarrow>
     same_outcome (override_directory s d pk) (merge_directory s d pk2)"
  "override pk \<Longrightarrow> destination pk2 = destination pk \<Longrightarrow>
     same_outcome (override_children cs d pk) (merge_children cs d pk2)"
proof (induction s dst pk and s d pk and s d pk and cs d pk
    arbitrary: pk2 d0 and pk2 and pk2 and pk2
    rule: pack_override_node_override_directory_override_children.induct)
  case (1 s dst pk)
  have "same_outcome (override_node s d0 pk) (merge_node s d0 pk2)"
    using 1(1) [of d0 pk2] 1(2,3,4) by simp
  then show ?case using 1(2,4) by (simp add: pack.simps)
next
  case (2 s d pk)
  show ?case
  proof (cases "fs_kind s = Directory \<and> is_instance_Directory d = Inr True")
    case True
    then show ?thesis
      using 2(1) [of True pk2] 2(2,3) by (simp add: override_node.simps merge_node.simps)
  next
    case False
    then show ?thesis
      using replace_node_cong [of pk pk2 s d] same_outcome_pair [of pk pk2] 2(3)
      by (cases "is_instance_Directory d")
         (auto simp: override_node.simps merge_node.simps)
  qed
next
  case (3 p s k h cs d pk)
  then show ?case by simp
next
  case (4 d pk)
  then show ?case by (simp add: same_outcome_def)
next
  case (5 child rest d pk)
  show ?case
  proof (cases "fs_hidden child")
    case True
    then show ?thesis using 5 by simp
  next
    case False
    define step1 where "step1 = (case lookup_destination pk child of
                 None \<Rightarrow> packer_add_node child (Some d) pk
               | Some cd \<Rightarrow> pack child (Some cd) pk)"
    define step2 where "step2 = (case lookup_destination pk2 child of
                 None \<Rightarrow> packer_add_node child (Some d) pk2
               | Some cd \<Rightarrow> merge_node child cd pk2)"
    have lk: "lookup_destination pk2 child = lookup_destination pk child"
      using lookup_destination_cong [of pk2 pk child] 5(5) by simp
    have first: "same_outcome step1 step2"
    proof (cases "lookup_destination pk child")
      case None
      then show ?thesis
        using lk packer_add_node_cong [of pk pk2 child "Some d"] 5(5)
        by (simp add: step1_def step2_def)
    next
      case (Some cd)
      then show ?thesis
        using lk 5(2) [OF False Some 5(4,5)] by (simp add: step1_def step2_def)
    qed
    have f1: "frame pk step1"
      unfolding step1_def using override_frame(1) packer_add_node_frame
      by (simp split: option.splits)
    have rest: "\<And>a b. step1 = (a, None) \<Longrightarrow> step2 = (b, None) \<Longrightarrow>
                 same_outcome (override_children rest d a) (merge_children rest d b)"
    proof -
      fix a b assume a: "step1 = (a, None)" and b: "step2 = (b, None)"
      have ov: "override a" using frame_flags [OF f1] a 5(4) by simp
      have de: "destination b = destination a"
        using first a b by (simp add: same_outcome_def)
      show "same_outcome (override_children rest d a) (merge_children rest d b)"
        using 5(3) [OF False _ _ ov de, of None] a unfolding step1_def by simp
    qed
    have e1: "override_children (child # rest) d pk =
        (case step1 of (pk', Some e) \<Rightarrow> (pk', Some e)
                    | (pk', None) \<Rightarrow> override_children rest d pk')"
      using False unfolding step1_def by (simp split: option.splits)
    have e2: "merge_children (child # rest) d pk2 =
        (case step2 of (pk', Some e) \<Rightarrow> (pk', Some e)
                    | (pk', None) \<Rightarrow> merge_children rest d pk')"
      using False unfolding step2_def by (simp split: option.splits)
    show ?thesis using children_step_cong [OF first rest] e1 e2 by simp
  qed
qed

text \<open>
  Claim C4. For a source directory and a destination directory, and for every pair of
  stores, a packer with the override policy and a packer with the merge policy that
  start from the same destination store end with the same destination store, and
  raise the same exception if any.
\<close>

theorem override_merge_equivalence:
  assumes "fs_kind src = Directory" and "d_kind dst = Directory"
    and "override pk1" and "\<not> override pk2" and "merge pk2"
    and "destination pk1 = destination pk2"
  shows "destination (fst (pack src (Some (Entity dst)) pk1))
           = destination (fst (pack src (Some (Entity dst)) pk2))
    \<and> snd (pack src (Some (Entity dst)) pk1) = snd (pack src (Some (Entity dst)) pk2)"
proof -
  have "same_outcome (pack src (Some (Entity dst)) pk1) (merge_node src (Entity dst) pk2)"
    using override_as_merge(1) [of pk1 pk2 "Some (Entity dst)" "Entity dst" src] assms
    by simp
  moreover have "pack src (Some (Entity dst)) pk2 = merge_node src (Entity dst) pk2"
    using assms by (simp add: pack.simps)
  ultimately show ?thesis by (simp add: same_outcome_def)
qed

theorem override_merge_equivalence_witness:
  "fs_kind (hd (fs_children dir_S)) = Directory
   \<and> d_kind \<lparr>d_path = [''D'', ''d''], d_kind = Directory\<rparr> = Directory
   \<and> override (packer_SD True False) \<and> \<not> override (packer_SD False True)
   \<and> merge (packer_SD False True)
   \<and> destination (packer_SD True False) = destination (packer_SD False True)
   \<and> destination (fst (pack (hd (fs_children dir_S))
          (Some (Entity \<lparr>d_path = [''D'', ''d''], d_kind = Directory\<rparr>)) (packer_SD True False)))
     = destination (fst (pack (hd (fs_children dir_S))
          (Some (Entity \<lparr>d_path = [''D'', ''d''], d_kind = Directory\<rparr>)) (packer_SD False True)))
   \<and> snd (pack (hd (fs_children dir_S))
          (Some (Entity \<lparr>d_path = [''D'', ''d''], d_kind = Directory\<rparr>)) (packer_SD True False))
     = snd (pack (hd (fs_children dir_S))
          (Some (Entity \<lparr>d_path = [''D'', ''d''], d_kind = Directory\<rparr>)) (packer_SD False True))"
proof -
  have h1: "fs_kind (hd (fs_children dir_S)) = Directory" by (simp add: dir_S_def)
  have h2: "d_kind \<lparr>d_path = [''D'', ''d''], d_kind = Directory\<rparr> = Directory" by simp
  have h3: "override (packer_SD True False)" by (simp add: packer_SD_def)
  have h4: "\<not> override (packer_SD False True)" by (simp add: packer_SD_def)
  have h5: "merge (packer_SD False True)" by (simp add: packer_SD_def)
  have h6: "destination (packer_SD True False) = destination (packer_SD False True)"
    by (simp add: packer_SD_def)
  show ?thesis
    using override_merge_equivalence [OF h1 h2 h3 h4 h5 h6] h1 h2 h3 h4 h5 h6 by simp
qed

section \<open>Replace, and the lookup of override\<close>

text \<open>
  Every action on a destination node that came from the lookup by name raises
  \<^verbatim>\<open>AttributeError\<close> and changes nothing: the node is a \<^verbatim>\<open>TreeNode\<close>.
\<close>

lemma replace_node_on_tree_node:
  "replace_node s (TreeNodeAt q) pk = (pk, Some AttributeError)"
  by (simp add: replace_node_def packer_add_node_def)

lemma pack_on_tree_node:
  "pack s (Some (TreeNodeAt q)) pk = (pk, Some AttributeError)"
  by (simp add: pack.simps override_node.simps merge_node.simps replace_node_on_tree_node)

text \<open>
  Claim C3 asks that replace on two directories detaches the destination directory and
  attaches one new node under its former parent. With the default policy, for the
  source directory \<^verbatim>\<open>/S/d\<close> and the destination store of \<^verbatim>\<open>/D\<close>, whose first node
  below the root mirrors the directory \<^verbatim>\<open>/D/d\<close>, the replace action on the two
  directories raises the error of a path that is not in the tree, from
  \<^verbatim>\<open>remove_node\<close>, and leaves the destination store as it was: nothing is detached
  and nothing is attached.
\<close>

theorem replace_directory_raises:
  "node_at (destination (packer_SD False False)) [0]
     = Some \<lparr>d_path = [''D'', ''d''], d_kind = Directory\<rparr>
   \<and> replace_node (hd (fs_children dir_S))
        (Entity \<lparr>d_path = [''D'', ''d''], d_kind = Directory\<rparr>) (packer_SD False False)
     = (packer_SD False False, Some PathNotFound)"
  by (simp add: node_at_def tree_node_path_def
      packer_SD_def store_D_def dir_D_def dir_S_def replace_node_def
      replace_directory_def packer_remove_node_def remove_node_def search_node_by_path_def
      parts_def)

text \<open>
  Claim C5 asks that override-directory looks a child of the source up among the
  children of the destination directory. In the destination store of \<^verbatim>\<open>/E\<close> the
  destination directory \<^verbatim>\<open>dst\<close> is the second child of the root and has no children.
  For the child \<^verbatim>\<open>c.txt\<close> of the source directory, the lookup returns the tree node
  \<^verbatim>\<open>c.txt\<close> under \<^verbatim>\<open>other\<close>, the first child of the root, and override-directory
  goes on with \<^verbatim>\<open>pack\<close> on that node, where the claim has the child attached under
  \<^verbatim>\<open>dst\<close>.
\<close>

theorem override_directory_lookup_not_local:
  "node_at (destination packer_E) [1] = Some \<lparr>d_path = [''E'', ''dst''], d_kind = Directory\<rparr>
   \<and> subtree_at (root_tree_node (destination packer_E)) [1]
        = Some (TNode ''dst'' None Directory [])
   \<and> search_node_by_name (destination packer_E) (fs_name (hd (fs_children dir_src)))
        = Some [0, 0]
   \<and> node_at (destination packer_E) [0, 0]
        = Some \<lparr>d_path = [''E'', ''other'', ''c.txt''], d_kind = File\<rparr>
   \<and> lookup_destination packer_E (hd (fs_children dir_src)) = Some (TreeNodeAt [0, 0])
   \<and> override_directory dir_src (Entity \<lparr>d_path = [''E'', ''dst''], d_kind = Directory\<rparr>)
        packer_E
        = pack (hd (fs_children dir_src)) (Some (TreeNodeAt [0, 0])) packer_E"
  by (simp add: lookup_destination_def search_node_by_name_def node_at_def tree_node_path_def
      packer_E_def store_E_def dir_src_def fs_name_def path_name_def
      split: prod.splits option.splits)

end
